theory Spec2Isabelle
  imports Complex_Main "HOL-Library.Char_ord" "HOL-Library.List_Lexorder"
begin

section \<open>Buffer-zone extraction of the IBIS pipeline\<close>

text \<open>
  A shallow embedding of \<^verbatim>\<open>scripts/buffer_zone.py\<close> (class
  \<^verbatim>\<open>BufferZoneAnalyzer\<close>) and of the two helpers of
  \<^verbatim>\<open>scripts/utils.py\<close> it calls (\<^verbatim>\<open>get_file_list\<close>,
  \<^verbatim>\<open>extract_subject_id\<close>).

  Python floats are modelled by \<open>real\<close>: distances, means and deviations are exact,
  rounding is not modelled. A float that is not a finite number (\<^verbatim>\<open>nan\<close>, \<^verbatim>\<open>inf\<close>) is the
  value \<open>NaN\<close>; it occurs in the cells of a coordinate table and as the statistic of a
  record, while the voxels of an image hold finite numbers. Exceptions are values of a
  sum type; a \<^verbatim>\<open>try/except Exception\<close> is a case distinction on it. Calls into numpy,
  nilearn, scikit-learn and pandas are modelled by what they return and by the
  exceptions with which they reject an argument; the file system, the CSV reader, the
  image loader and the values of a resampled mask are fields of an environment record.
\<close>

subsection \<open>Exceptions\<close>

datatype error =
    ValueError string
  | IndexError
  | TypeError
  | OSError string

subsection \<open>Floats\<close>

datatype npfloat = Val real | NaN

definition is_finite :: "npfloat \<Rightarrow> bool" where
  "is_finite v = (case v of Val x \<Rightarrow> True | NaN \<Rightarrow> False)"

definition np_real :: "npfloat \<Rightarrow> real" where
  "np_real v = (case v of Val x \<Rightarrow> x | NaN \<Rightarrow> 0)"

subsection \<open>Grid geometry\<close>

type_synonym voxel = "nat \<times> nat \<times> nat"
type_synonym point = "real \<times> real \<times> real"

text \<open>A seed as read from a coordinate table, and its point when it is finite.\<close>

type_synonym seed = "npfloat \<times> npfloat \<times> npfloat"
type_synonym row4 = "real \<times> real \<times> real \<times> real"

text \<open>The first three rows of the 4x4 voxel-to-world matrix; the fourth row does not
  enter the world coordinates.\<close>

type_synonym affine = "row4 \<times> row4 \<times> row4"

definition dot_row :: "row4 \<Rightarrow> real \<Rightarrow> real \<Rightarrow> real \<Rightarrow> real" where
  "dot_row r x y z = (case r of (a, b, c, d) \<Rightarrow> a * x + b * y + c * z + d)"

text \<open>\<^verbatim>\<open>nilearn.image.resampling.coord_transform(x, y, z, affine)\<close>: the three coordinate
  arrays of \<^verbatim>\<open>affine @ [x, y, z, 1]\<close>.\<close>

definition coord_transform ::
  "real list \<Rightarrow> real list \<Rightarrow> real list \<Rightarrow> affine \<Rightarrow> real list \<times> real list \<times> real list" where
  "coord_transform xs ys zs aff =
     (case aff of (r0, r1, r2) \<Rightarrow>
        (let cs = zip xs (zip ys zs) in
           (map (\<lambda>(x, y, z). dot_row r0 x y z) cs,
            map (\<lambda>(x, y, z). dot_row r1 x y z) cs,
            map (\<lambda>(x, y, z). dot_row r2 x y z) cs)))"

text \<open>The world coordinate of one voxel, for reference computations.\<close>

definition to_world :: "affine \<Rightarrow> voxel \<Rightarrow> point" where
  "to_world aff v =
     (case aff of (r0, r1, r2) \<Rightarrow> (case v of (i, j, k) \<Rightarrow>
        (dot_row r0 (real i) (real j) (real k),
         dot_row r1 (real i) (real j) (real k),
         dot_row r2 (real i) (real j) (real k))))"

definition euclidean :: "point \<Rightarrow> point \<Rightarrow> real" where
  "euclidean p q =
     (case p of (x, y, z) \<Rightarrow> (case q of (x', y', z') \<Rightarrow>
        sqrt ((x - x')\<^sup>2 + (y - y')\<^sup>2 + (z - z')\<^sup>2)))"

definition finite_seed :: "seed \<Rightarrow> bool" where
  "finite_seed s = (case s of (x, y, z) \<Rightarrow> is_finite x \<and> is_finite y \<and> is_finite z)"

definition seed_point :: "seed \<Rightarrow> point" where
  "seed_point s = (case s of (x, y, z) \<Rightarrow> (np_real x, np_real y, np_real z))"

subsection \<open>Images and masks\<close>

text \<open>A mask image is three-dimensional; a voxel is active when its value is not 0.\<close>

record mask_img =
  mask_shape :: "nat \<times> nat \<times> nat"
  mask_affine :: affine
  mask_data :: "voxel \<Rightarrow> real"

text \<open>An image is one volume, or a series with a first volume and further ones.\<close>

datatype img_data =
    Img3D "voxel \<Rightarrow> real"
  | Img4D "voxel \<Rightarrow> real" "(voxel \<Rightarrow> real) list"

record niimg =
  img_shape :: "nat \<times> nat \<times> nat"
  img_affine :: affine
  img_data :: img_data

datatype ndarray = Arr1 "real list" | Arr2 "real list list"

text \<open>The index triples of a shape in C order (last index fastest), the order of
  \<^verbatim>\<open>np.nonzero\<close>, \<^verbatim>\<open>np.where\<close> and boolean indexing.\<close>

definition grid :: "nat \<times> nat \<times> nat \<Rightarrow> voxel list" where
  "grid shape =
     (case shape of (nx, ny, nz) \<Rightarrow>
        List.product [0..<nx] (List.product [0..<ny] [0..<nz]))"

text \<open>\<^verbatim>\<open>np.unique\<close>: the distinct values, ascending.\<close>

definition np_unique :: "real list \<Rightarrow> real list" where
  "np_unique xs = sort (remdups xs)"

text \<open>\<^verbatim>\<open>masking._load_mask_img(mask_img)\<close>, with \<^verbatim>\<open>allow_empty\<close> at its default \<^verbatim>\<open>False\<close>: a
  mask is accepted when it has one value other than 0, or two values of which one is
  0; every other mask raises \<^verbatim>\<open>ValueError\<close>. The result is the boolean array of the mask
  (with its shape) and its affine. Python's \<^verbatim>\<open>None\<close> is no image.\<close>

definition load_mask_img ::
  "mask_img option \<Rightarrow> error + (((nat \<times> nat \<times> nat) \<times> (voxel \<Rightarrow> bool)) \<times> affine)" where
  "load_mask_img mask_img =
     (case mask_img of
        None \<Rightarrow> Inl TypeError
      | Some m \<Rightarrow>
          (let vals = np_unique (map (mask_data m) (grid (mask_shape m))) in
             if length vals = 1 \<and> hd vals = 0 then
               Inl (ValueError ''The mask is invalid as it is empty: it is full of zeros.'')
             else if length vals = 2 \<and> 0 \<notin> set vals then
               Inl (ValueError ''Background of the mask must be represented with 0.'')
             else if length vals \<noteq> 1 \<and> length vals \<noteq> 2 then
               Inl (ValueError ''Given mask is not made of 2 values. Cannot interpret as true or false.'')
             else Inr ((mask_shape m, \<lambda>v. mask_data m v \<noteq> 0), mask_affine m)))"

text \<open>The index triples of the true entries, in C order: \<^verbatim>\<open>np.asarray(np.nonzero(mask)).T.tolist()\<close>
  and \<^verbatim>\<open>list(zip(*np.where(mask != 0)))\<close>.\<close>

definition np_nonzero :: "(nat \<times> nat \<times> nat) \<times> (voxel \<Rightarrow> bool) \<Rightarrow> voxel list" where
  "np_nonzero m = filter (snd m) (grid (fst m))"

text \<open>\<^verbatim>\<open>apply_mask(niimg, mask_img)\<close>: the image values at the active voxels of the mask,
  one row per volume; a single volume gives a one-dimensional array.\<close>

definition apply_mask :: "niimg \<Rightarrow> mask_img \<Rightarrow> ndarray" where
  "apply_mask img m =
     (let vs = np_nonzero (mask_shape m, \<lambda>v. mask_data m v \<noteq> 0) in
        (case img_data img of
           Img3D vol \<Rightarrow> Arr1 (map vol vs)
         | Img4D vol vols \<Rightarrow> Arr2 (map (\<lambda>f. map f vs) (vol # vols))))"

text \<open>\<^verbatim>\<open>list(zip(*rows))\<close>: the columns of a list of index triples; no columns when
  there is no row.\<close>

definition zip_star :: "voxel list \<Rightarrow> nat list list" where
  "zip_star vs =
     (if vs = [] then []
      else [map (\<lambda>(i, j, k). i) vs, map (\<lambda>(i, j, k). j) vs, map (\<lambda>(i, j, k). k) vs])"

text \<open>Indexing a list or the first axis of an array; out of range raises.\<close>

definition py_index :: "'a list \<Rightarrow> nat \<Rightarrow> error + 'a" where
  "py_index xs i = (if i < length xs then Inr (xs ! i) else Inl IndexError)"

text \<open>\<^verbatim>\<open>NearestNeighbors(radius=radius).fit(points).radius_neighbors_graph(seeds)\<close>:
  \<^verbatim>\<open>fit\<close> rejects a negative radius (as scikit-learn does from version 1.2 on) and an
  empty point array, the query rejects seeds that are not finite and an empty seed
  array, each with \<^verbatim>\<open>ValueError\<close>. Otherwise the result is the connectivity matrix, one
  row per seed and one column per fitted point; an entry is set when the Euclidean
  distance of the point to the seed is at most the radius.\<close>

definition radius_neighbors_graph ::
  "real \<Rightarrow> point list \<Rightarrow> seed list \<Rightarrow> error + bool list list" where
  "radius_neighbors_graph radius points seeds =
     (if radius < 0 then
        Inl (ValueError ''The radius parameter of NearestNeighbors must be in the range [0.0, inf).'')
      else if points = [] then
        Inl (ValueError ''Found array with 0 sample(s) while a minimum of 1 is required.'')
      else if list_ex (\<lambda>s. \<not> finite_seed s) seeds then
        Inl (ValueError ''Input contains NaN.'')
      else if seeds = [] then
        Inl (ValueError ''Found array with 0 sample(s) while a minimum of 1 is required.'')
      else Inr (map (\<lambda>s. map (\<lambda>p. euclidean p (seed_point s) \<le> radius) points) seeds))"

text \<open>\<^verbatim>\<open>row.nonzero()[1]\<close>: the column indices of the set entries of a row, here in
  ascending order. The order in which scikit-learn stores them enters no field of a
  record: the count and the four statistics do not depend on it.\<close>

definition nonzero :: "bool list \<Rightarrow> nat list" where
  "nonzero row = filter (\<lambda>j. row ! j) [0..<length row]"

subsection \<open>The environment\<close>

text \<open>What the analyzer reads from outside: the directory listing, the coordinate
  tables, the images, and the values that nilearn's nearest-neighbour resampling gives a
  mask on a target grid.\<close>

record dataframe =
  df_columns :: "string list"
  df_rows :: "(string \<Rightarrow> npfloat) list"

record env =
  fs_exists :: "string \<Rightarrow> bool"
  fs_listdir :: "string \<Rightarrow> string list"
  fs_isfile :: "string \<Rightarrow> bool"
  read_csv :: "string \<Rightarrow> error + dataframe"
  load_img :: "string \<Rightarrow> error + niimg"
  resample_data :: "mask_img \<Rightarrow> affine \<Rightarrow> nat \<times> nat \<times> nat \<Rightarrow> voxel \<Rightarrow> real"

text \<open>\<^verbatim>\<open>image.resample_img(mask_img, target_affine, target_shape, interpolation='nearest')\<close>:
  an image on the target grid, with the target affine and the target shape.\<close>

definition resample_img :: "env \<Rightarrow> mask_img \<Rightarrow> affine \<Rightarrow> nat \<times> nat \<times> nat \<Rightarrow> mask_img" where
  "resample_img e m target_affine target_shape =
     \<lparr> mask_shape = target_shape, mask_affine = target_affine,
        mask_data = resample_data e m target_affine target_shape \<rparr>"

subsection \<open>\<^verbatim>\<open>BufferZoneAnalyzer._apply_mask_and_get_affinity\<close>\<close>

text \<open>Lines 63 and 64: the index triples are transposed, the three index arrays are
  taken by position and mapped to world coordinates, and the result is transposed
  back into one point per active voxel.\<close>

definition world_coords :: "voxel list \<Rightarrow> affine \<Rightarrow> error + point list" where
  "world_coords mask_coords aff =
     (let cols = zip_star mask_coords in
        (case py_index cols 0 of Inl e \<Rightarrow> Inl e | Inr c0 \<Rightarrow>
        (case py_index cols 1 of Inl e \<Rightarrow> Inl e | Inr c1 \<Rightarrow>
        (case py_index cols 2 of Inl e \<Rightarrow> Inl e | Inr c2 \<Rightarrow>
           (case coord_transform (map real c0) (map real c1) (map real c2) aff of
              (xs, ys, zs) \<Rightarrow> Inr (zip xs (zip ys zs)))))))"

definition apply_mask_and_get_affinity ::
  "env \<Rightarrow> seed list \<Rightarrow> niimg option \<Rightarrow> real \<Rightarrow> bool \<Rightarrow> mask_img option
     \<Rightarrow> error + (real list list option \<times> bool list list)" where
  "apply_mask_and_get_affinity e seeds niimg radius allow_overlap mask_img =
     (case
        (case niimg of
           None \<Rightarrow>
             (case load_mask_img mask_img of
                Inl err \<Rightarrow> Inl err
              | Inr (mask_arr, aff) \<Rightarrow> Inr (np_nonzero mask_arr, aff, None))
         | Some img \<Rightarrow>
             (case mask_img of
                Some m \<Rightarrow>
                  (let aff = img_affine img;
                       m' = resample_img e m aff (img_shape img) in
                     (case load_mask_img (Some m') of
                        Inl err \<Rightarrow> Inl err
                      | Inr (mask_arr, _) \<Rightarrow>
                          (let masked = apply_mask img m';
                               X = (case masked of Arr1 v \<Rightarrow> [v] | Arr2 vs \<Rightarrow> vs)
                           in Inr (np_nonzero mask_arr, aff, Some X))))
              | None \<Rightarrow> Inl (ValueError ''Either niimg or mask_img must be provided'')))
      of
        Inl err \<Rightarrow> Inl err
      | Inr (mask_coords, aff, X) \<Rightarrow>
          (case world_coords mask_coords aff of
             Inl err \<Rightarrow> Inl err
           | Inr points \<Rightarrow>
               (case radius_neighbors_graph radius points seeds of
                  Inl err \<Rightarrow> Inl err
                | Inr A \<Rightarrow> Inr (X, A))))"

subsection \<open>Aggregation over the seeds\<close>

record bz_record =
  seed_id :: nat
  seed_x :: npfloat
  seed_y :: npfloat
  seed_z :: npfloat
  radius_mm :: real
  voxel_count :: nat
  mean_value :: npfloat
  std_value :: npfloat
  max_value :: npfloat
  min_value :: npfloat

text \<open>\<^verbatim>\<open>np.mean\<close> and \<^verbatim>\<open>np.std\<close> (divisor \<open>n\<close>) of all entries; of no entry they are
  \<^verbatim>\<open>nan\<close>. \<^verbatim>\<open>np.max\<close> and \<^verbatim>\<open>np.min\<close> of no entry raise.\<close>

definition np_mean :: "real list \<Rightarrow> npfloat" where
  "np_mean xs = (if xs = [] then NaN else Val (sum_list xs / real (length xs)))"

definition np_std :: "real list \<Rightarrow> npfloat" where
  "np_std xs =
     (if xs = [] then NaN
      else (let m = sum_list xs / real (length xs) in
              Val (sqrt (sum_list (map (\<lambda>v. \<bar>v - m\<bar>\<^sup>2) xs) / real (length xs)))))"

definition np_max :: "real list \<Rightarrow> error + npfloat" where
  "np_max xs =
     (case xs of
        [] \<Rightarrow> Inl (ValueError ''zero-size array to reduction operation maximum which has no identity'')
      | v # vs \<Rightarrow> Inr (Val (fold max vs v)))"

definition np_min :: "real list \<Rightarrow> error + npfloat" where
  "np_min xs =
     (case xs of
        [] \<Rightarrow> Inl (ValueError ''zero-size array to reduction operation minimum which has no identity'')
      | v # vs \<Rightarrow> Inr (Val (fold min vs v)))"

text \<open>\<^verbatim>\<open>X[:, sphere_voxels]\<close>: the chosen columns of every row; a column index out of
  range raises.\<close>

definition take_columns :: "real list list \<Rightarrow> nat list \<Rightarrow> error + real list list" where
  "take_columns rows idx =
     (if list_all (\<lambda>row. list_all (\<lambda>j. j < length row) idx) rows
      then Inr (map (\<lambda>row. map (\<lambda>j. row ! j) idx) rows)
      else Inl IndexError)"

text \<open>Lines 85 to 90: the four statistics of one sphere.\<close>

definition sphere_stats ::
  "real list list option \<Rightarrow> nat list \<Rightarrow> error + (npfloat \<times> npfloat \<times> npfloat \<times> npfloat)" where
  "sphere_stats X sphere_voxels =
     (case X of
        Some rows \<Rightarrow>
          (case take_columns rows sphere_voxels of
             Inl err \<Rightarrow> Inl err
           | Inr sphere_values \<Rightarrow>
               (let vals = concat sphere_values;
                    mean_val = np_mean vals;
                    std_val = np_std vals in
                  (case np_max vals of
                     Inl err \<Rightarrow> Inl err
                   | Inr max_val \<Rightarrow>
                       (case np_min vals of
                          Inl err \<Rightarrow> Inl err
                        | Inr min_val \<Rightarrow> Inr (mean_val, std_val, max_val, min_val)))))
      | None \<Rightarrow> Inr (NaN, NaN, NaN, NaN))"

text \<open>Lines 80 to 96: the loop over \<^verbatim>\<open>enumerate(seeds)\<close>, with the list \<^verbatim>\<open>results\<close>
  as accumulator.\<close>

fun seed_loop ::
  "real list list option \<Rightarrow> bool list list \<Rightarrow> real \<Rightarrow> (nat \<times> seed) list \<Rightarrow> bz_record list
     \<Rightarrow> error + bz_record list" where
  "seed_loop X A radius [] results = Inr results"
| "seed_loop X A radius ((i, seed) # rest) results =
     (case py_index A i of
        Inl err \<Rightarrow> Inl err
      | Inr row \<Rightarrow>
          (let sphere_voxels = nonzero row in
             if length sphere_voxels = 0 then seed_loop X A radius rest results
             else
               (case sphere_stats X sphere_voxels of
                  Inl err \<Rightarrow> Inl err
                | Inr (mean_val, std_val, max_val, min_val) \<Rightarrow>
                    seed_loop X A radius rest
                      (results @
                       [\<lparr> seed_id = i,
                           seed_x = fst seed, seed_y = fst (snd seed), seed_z = snd (snd seed),
                           radius_mm = radius, voxel_count = length sphere_voxels,
                           mean_value = mean_val, std_value = std_val,
                           max_value = max_val, min_value = min_val \<rparr>]))))"

subsection \<open>\<^verbatim>\<open>BufferZoneAnalyzer.__init__\<close> and \<^verbatim>\<open>extract_buffer_zone_data\<close>\<close>

text \<open>\<^verbatim>\<open>os.path.join\<close> of two components.\<close>

definition path_join :: "string \<Rightarrow> string \<Rightarrow> string" where
  "path_join a b =
     (if b \<noteq> [] \<and> hd b = CHR ''/'' then b
      else if a = [] \<or> last a = CHR ''/'' then a @ b
      else a @ ''/'' @ b)"

text \<open>The part of the configuration the analyzer reads; an absent key is \<open>None\<close>.
  \<open>cfg_radius_options\<close> is the entry of \<^verbatim>\<open>config/buffer_zone_config.yaml\<close>.\<close>

record config =
  cfg_input_dir :: string
  cfg_default_radius :: "real option"
  cfg_allow_overlap :: "bool option"
  cfg_radius_options :: "real option list option"

record analyzer =
  coordinates_dir :: string
  images_dir :: string
  default_radius :: real
  allow_overlap :: bool
  radius_options :: "real option list option"

definition new_analyzer :: "config \<Rightarrow> analyzer" where
  "new_analyzer cfg =
     \<lparr> coordinates_dir = path_join (cfg_input_dir cfg) ''coordinates'',
        images_dir = path_join (cfg_input_dir cfg) ''images'',
        default_radius = (case cfg_default_radius cfg of None \<Rightarrow> 5 | Some r \<Rightarrow> r),
        allow_overlap = (case cfg_allow_overlap cfg of None \<Rightarrow> False | Some b \<Rightarrow> b),
        radius_options = cfg_radius_options cfg \<rparr>"

text \<open>Line 71, \<^verbatim>\<open>radius or self.default_radius\<close>: \<^verbatim>\<open>None\<close> and 0 are falsy.\<close>

definition py_or :: "real option \<Rightarrow> real \<Rightarrow> real" where
  "py_or radius d = (case radius of None \<Rightarrow> d | Some r \<Rightarrow> if r = 0 then d else r)"

definition required_cols :: "string list" where
  "required_cols = [''X'', ''Y'', ''Z'']"

text \<open>\<^verbatim>\<open>coords_df[required_cols].values\<close>: one coordinate triple per row.\<close>

definition seeds_of :: "dataframe \<Rightarrow> seed list" where
  "seeds_of df = map (\<lambda>row. (row ''X'', row ''Y'', row ''Z'')) (df_rows df)"

type_synonym helper =
  "seed list \<Rightarrow> niimg option \<Rightarrow> real \<Rightarrow> bool \<Rightarrow> mask_img option
     \<Rightarrow> error + (real list list option \<times> bool list list)"

text \<open>Lines 70 to 99. The method \<^verbatim>\<open>self._apply_mask_and_get_affinity\<close> is looked up on
  the object when it is called; \<open>h\<close> stands for it, and the class's own method is put
  in below. The call leaves \<^verbatim>\<open>mask_img\<close> at its default \<^verbatim>\<open>None\<close>. The handler turns
  every exception of the body into the empty table.\<close>

definition extract_body ::
  "helper \<Rightarrow> analyzer \<Rightarrow> env \<Rightarrow> string \<Rightarrow> string \<Rightarrow> real \<Rightarrow> error + bz_record list" where
  "extract_body h self e coordinates_file image_file radius =
     (case read_csv e coordinates_file of
        Inl err \<Rightarrow> Inl err
      | Inr coords_df \<Rightarrow>
          if list_ex (\<lambda>c. c \<notin> set (df_columns coords_df)) required_cols then Inr []
          else
            (let seeds = seeds_of coords_df in
               (case load_img e image_file of
                  Inl err \<Rightarrow> Inl err
                | Inr img \<Rightarrow>
                    (case h seeds (Some img) radius (allow_overlap self) None of
                       Inl err \<Rightarrow> Inl err
                     | Inr (X, A) \<Rightarrow> seed_loop X A radius (enumerate 0 seeds) []))))"

definition extract_buffer_zone_data_with ::
  "helper \<Rightarrow> analyzer \<Rightarrow> env \<Rightarrow> string \<Rightarrow> string \<Rightarrow> real option \<Rightarrow> bz_record list" where
  "extract_buffer_zone_data_with h self e coordinates_file image_file radius =
     (case extract_body h self e coordinates_file image_file (py_or radius (default_radius self)) of
        Inl err \<Rightarrow> []
      | Inr results \<Rightarrow> results)"

definition extract_buffer_zone_data ::
  "analyzer \<Rightarrow> env \<Rightarrow> string \<Rightarrow> string \<Rightarrow> real option \<Rightarrow> bz_record list" where
  "extract_buffer_zone_data self e =
     extract_buffer_zone_data_with (apply_mask_and_get_affinity e) self e"

subsection \<open>\<^verbatim>\<open>get_file_list\<close> and \<^verbatim>\<open>extract_subject_id\<close>\<close>

definition endswith :: "string \<Rightarrow> string \<Rightarrow> bool" where
  "endswith s p = (length p \<le> length s \<and> drop (length s - length p) s = p)"

text \<open>The paths of the regular files of a directory whose names end with one of the
  patterns (all of them when no pattern list is given), sorted.\<close>

definition get_file_list :: "env \<Rightarrow> string \<Rightarrow> string list option \<Rightarrow> string list" where
  "get_file_list e directory file_patterns =
     (if \<not> fs_exists e directory then []
      else
        sort (concat (map
          (\<lambda>file.
             (let file_path = path_join directory file in
                if fs_isfile e file_path then
                  (case file_patterns of
                     None \<Rightarrow> [file_path]
                   | Some patterns \<Rightarrow>
                       if list_ex (\<lambda>pattern. endswith file pattern) patterns then [file_path]
                       else [])
                else []))
          (fs_listdir e directory))))"

definition is_digit :: "char \<Rightarrow> bool" where
  "is_digit c = (CHR ''0'' \<le> c \<and> c \<le> CHR ''9'')"

text \<open>\<^verbatim>\<open>re.search(r'(\d{4})', filename)\<close>: the leftmost four digits in a row.\<close>

fun extract_subject_id :: "string \<Rightarrow> string option" where
  "extract_subject_id [] = None"
| "extract_subject_id (c # cs) =
     (if 4 \<le> length (c # cs) \<and> list_all is_digit (take 4 (c # cs)) then Some (take 4 (c # cs))
      else extract_subject_id cs)"

definition basename :: "string \<Rightarrow> string" where
  "basename p = rev (takeWhile (\<lambda>c. c \<noteq> CHR ''/'') (rev p))"

subsection \<open>\<^verbatim>\<open>BufferZoneAnalyzer.process_coordinate_files\<close>\<close>

record out_row =
  measured :: bz_record
  subject_id :: string

type_synonym extractor = "string \<Rightarrow> string \<Rightarrow> real option \<Rightarrow> bz_record list"

text \<open>Lines 113 to 117: the loop over the radii of one coordinate file.\<close>

fun radius_loop ::
  "extractor \<Rightarrow> string \<Rightarrow> string \<Rightarrow> string \<Rightarrow> real option list \<Rightarrow> out_row list list
     \<Rightarrow> out_row list list" where
  "radius_loop ex coord_file default_image sid [] all_results = all_results"
| "radius_loop ex coord_file default_image sid (radius # rest) all_results =
     (let df = ex coord_file default_image radius in
        if df \<noteq> [] then
          radius_loop ex coord_file default_image sid rest
            (all_results @ [map (\<lambda>r. \<lparr> measured = r, subject_id = sid \<rparr>) df])
        else radius_loop ex coord_file default_image sid rest all_results)"

text \<open>Lines 109 to 117: the loop over the coordinate files.\<close>

fun file_loop ::
  "extractor \<Rightarrow> string \<Rightarrow> real option list \<Rightarrow> string list \<Rightarrow> out_row list list
     \<Rightarrow> out_row list list" where
  "file_loop ex default_image radii [] all_results = all_results"
| "file_loop ex default_image radii (coord_file # rest) all_results =
     (case extract_subject_id (basename coord_file) of
        None \<Rightarrow> file_loop ex default_image radii rest all_results
      | Some sid \<Rightarrow>
          file_loop ex default_image radii rest
            (radius_loop ex coord_file default_image sid radii all_results))"

text \<open>Lines 118 to 120: the tables are concatenated and written, unless there is none.
  The result is the table written to \<^verbatim>\<open>buffer_zone_metrics.csv\<close>, or \<open>None\<close> when no
  file is written.\<close>

definition write_results :: "out_row list list \<Rightarrow> out_row list option" where
  "write_results all_results = (if all_results \<noteq> [] then Some (concat all_results) else None)"

text \<open>Lines 101 to 120. \<open>ex\<close> stands for the method \<^verbatim>\<open>self.extract_buffer_zone_data\<close>,
  looked up on the object when it is called; the class's own method is put in below.\<close>

definition process_coordinate_files_with ::
  "extractor \<Rightarrow> analyzer \<Rightarrow> env \<Rightarrow> out_row list option" where
  "process_coordinate_files_with ex self e =
     (let coord_files = get_file_list e (coordinates_dir self) (Some [''.csv'']);
          image_files = get_file_list e (images_dir self) (Some [''.nii.gz'', ''.nii''])
      in
        if coord_files = [] \<or> image_files = [] then None
        else
          (let default_image = hd image_files;
               radii = (case radius_options self of
                          None \<Rightarrow> [Some (default_radius self)]
                        | Some rs \<Rightarrow> rs);
               all_results = file_loop ex default_image radii coord_files []
           in write_results all_results))"

definition process_coordinate_files :: "analyzer \<Rightarrow> env \<Rightarrow> out_row list option" where
  "process_coordinate_files self e =
     process_coordinate_files_with (extract_buffer_zone_data self e) self e"

subsection \<open>Reference notions\<close>

text \<open>The active voxels of a mask, in C order.\<close>

definition active_voxels :: "mask_img \<Rightarrow> voxel list" where
  "active_voxels m = np_nonzero (mask_shape m, \<lambda>v. mask_data m v \<noteq> 0)"

text \<open>The mask on the grid that is indexed: resampled onto the grid of the image when
  an image is given, the mask itself otherwise.\<close>

definition aligned_mask :: "env \<Rightarrow> niimg option \<Rightarrow> mask_img \<Rightarrow> mask_img" where
  "aligned_mask e niimg m =
     (case niimg of None \<Rightarrow> m | Some img \<Rightarrow> resample_img e m (img_affine img) (img_shape img))"

text \<open>The affine that maps the indexed grid to world coordinates.\<close>

definition grid_affine :: "niimg option \<Rightarrow> mask_img \<Rightarrow> affine" where
  "grid_affine niimg m = (case niimg of None \<Rightarrow> mask_affine m | Some img \<Rightarrow> img_affine img)"

text \<open>The rows of \<^verbatim>\<open>X\<close>: for every volume of the image, its values at the given voxels.\<close>

definition intensities :: "niimg \<Rightarrow> voxel list \<Rightarrow> real list list" where
  "intensities img vs =
     (case img_data img of
        Img3D vol \<Rightarrow> [map vol vs]
      | Img4D vol vols \<Rightarrow> map (\<lambda>f. map f vs) (vol # vols))"

text \<open>The brute-force reference: one pass over all voxels of the grid, keeping the
  active ones whose world coordinate lies within distance \<open>R\<close> of the seed.\<close>

definition matched_voxels :: "affine \<Rightarrow> mask_img \<Rightarrow> point \<Rightarrow> real \<Rightarrow> voxel list" where
  "matched_voxels aff m s R =
     filter (\<lambda>v. mask_data m v \<noteq> 0 \<and> euclidean (to_world aff v) s \<le> R) (grid (mask_shape m))"

definition brute_force_count :: "affine \<Rightarrow> mask_img \<Rightarrow> point \<Rightarrow> real \<Rightarrow> nat" where
  "brute_force_count aff m s R = length (matched_voxels aff m s R)"

text \<open>The voxel count a table reports for seed \<open>i\<close>; a seed without a record counts 0.\<close>

definition reported_count :: "bz_record list \<Rightarrow> nat \<Rightarrow> nat" where
  "reported_count rows i =
     (case filter (\<lambda>r. seed_id r = i) rows of [] \<Rightarrow> 0 | r # _ \<Rightarrow> voxel_count r)"

text \<open>The volumes of an image, and the intensities of all its volumes at the given
  voxels, volume by volume.\<close>

definition volumes :: "niimg \<Rightarrow> (voxel \<Rightarrow> real) list" where
  "volumes img = (case img_data img of Img3D vol \<Rightarrow> [vol] | Img4D vol vols \<Rightarrow> vol # vols)"

definition matched_values :: "niimg \<Rightarrow> voxel list \<Rightarrow> real list" where
  "matched_values img vs = concat (map (\<lambda>vol. map vol vs) (volumes img))"

text \<open>The class's helper with the mask argument filled in.\<close>

definition helper_with :: "env \<Rightarrow> mask_img \<Rightarrow> helper" where
  "helper_with e m = (\<lambda>seeds niimg radius allow_overlap mask_img.
     apply_mask_and_get_affinity e seeds niimg radius allow_overlap (Some m))"

text \<open>The rows that one coordinate file contributes: for every radius in turn, the records
  of the extraction, each with the subject identifier of the file; nothing for a file
  without a subject identifier.\<close>

definition file_rows :: "extractor \<Rightarrow> string \<Rightarrow> real option list \<Rightarrow> string \<Rightarrow> out_row list" where
  "file_rows ex default_image radii coord_file =
     (case extract_subject_id (basename coord_file) of
        None \<Rightarrow> []
      | Some sid \<Rightarrow>
          concat (map (\<lambda>radius. map (\<lambda>rec. \<lparr> measured = rec, subject_id = sid \<rparr>)
                                   (ex coord_file default_image radius)) radii))"

subsection \<open>Concrete inputs\<close>

text \<open>A grid of two voxels with 2 mm spacing, a mask with both voxels active, a mask
  with none, an image with the values 10 and 20, a coordinate table with three seeds,
  and a directory tree with three coordinate files (one unreadable) and one image.\<close>

definition demo_affine :: affine where
  "demo_affine = ((2, 0, 0, 0), (0, 2, 0, 0), (0, 0, 2, 0))"

definition demo_mask :: mask_img where
  "demo_mask = \<lparr> mask_shape = (2, 1, 1), mask_affine = demo_affine, mask_data = (\<lambda>v. 1) \<rparr>"

definition zero_mask :: mask_img where
  "zero_mask = \<lparr> mask_shape = (2, 1, 1), mask_affine = demo_affine, mask_data = (\<lambda>v. 0) \<rparr>"

definition demo_img :: niimg where
  "demo_img = \<lparr> img_shape = (2, 1, 1), img_affine = demo_affine,
                 img_data = Img3D (\<lambda>v. if fst v = 0 then 10 else 20) \<rparr>"

definition demo_df :: dataframe where
  "demo_df = \<lparr> df_columns = [''X'', ''Y'', ''Z''],
                df_rows = [\<lambda>c. Val 0, \<lambda>c. if c = ''X'' then Val 1 else Val 0, \<lambda>c. Val 100] \<rparr>"

definition demo_env :: env where
  "demo_env =
     \<lparr> fs_exists = (\<lambda>d. True),
        fs_listdir = (\<lambda>d. if d = ''in/coordinates'' then [''s_0002.csv'', ''notes.txt'', ''bad_0003.csv'', ''s_0001.csv'']
                          else if d = ''in/images'' then [''t1.nii.gz''] else []),
        fs_isfile = (\<lambda>p. True),
        read_csv = (\<lambda>p. if p = ''in/coordinates/s_0001.csv'' \<or> p = ''in/coordinates/s_0002.csv''
                         then Inr demo_df else Inl (OSError ''cannot read'')),
        load_img = (\<lambda>p. if p = ''in/images/t1.nii.gz'' then Inr demo_img else Inl (OSError ''cannot read'')),
        resample_data = (\<lambda>m aff shape. mask_data m) \<rparr>"

definition demo_self :: analyzer where
  "demo_self = new_analyzer \<lparr> cfg_input_dir = ''in'', cfg_default_radius = None,
                                cfg_allow_overlap = None, cfg_radius_options = Some [Some 1, Some 3] \<rparr>"

text \<open>The extraction method with the mask argument of the helper filled in, on the
  concrete inputs.\<close>

definition demo_ex :: extractor where
  "demo_ex = extract_buffer_zone_data_with (helper_with demo_env demo_mask) demo_self demo_env"

text \<open>An analyzer whose configuration sets \<^verbatim>\<open>default_radius\<close> to 0.\<close>

definition zero_self :: analyzer where
  "zero_self = new_analyzer \<lparr> cfg_input_dir = ''in'', cfg_default_radius = Some 0,
                                cfg_allow_overlap = None, cfg_radius_options = None \<rparr>"

section \<open>Properties\<close>

subsection \<open>Grid, world coordinates and the helper\<close>

lemma world_coords_empty: "world_coords [] aff = Inl IndexError"
  by (simp add: world_coords_def zip_star_def py_index_def)

lemma zip_cols: "zip (map f vs) (zip (map g vs) (map h vs)) = map (\<lambda>v. (f v, g v, h v)) vs"
  by (induction vs) auto

lemma world_coords_nonempty:
  "mc \<noteq> [] \<Longrightarrow> world_coords mc aff = Inr (map (to_world aff) mc)"
  apply (cases aff)
  apply (simp add: world_coords_def zip_star_def py_index_def coord_transform_def Let_def
      zip_cols to_world_def split_def comp_def)
  done

lemma world_coords_eq:
  "world_coords mc aff = (if mc = [] then Inl IndexError else Inr (map (to_world aff) mc))"
  by (simp add: world_coords_empty world_coords_nonempty)

lemma set_np_unique: "set (np_unique xs) = set xs"
  by (simp add: np_unique_def)

lemma length_np_unique: "length (np_unique xs) = card (set xs)"
  by (simp add: np_unique_def length_remdups_card_conv)

lemma active_voxels_empty_iff:
  "active_voxels m = [] \<longleftrightarrow> set (map (mask_data m) (grid (mask_shape m))) \<subseteq> {0}"
  by (auto simp: active_voxels_def np_nonzero_def filter_empty_conv)

text \<open>A mask without an active voxel is rejected when it is loaded.\<close>

lemma load_mask_img_empty:
  assumes "active_voxels m = []"
  shows "\<exists>msg. load_mask_img (Some m) = Inl (ValueError msg)"
proof -
  let ?xs = "map (mask_data m) (grid (mask_shape m))"
  have sub: "set ?xs \<subseteq> {0}"
    using assms by (simp only: active_voxels_empty_iff)
  then have "set ?xs = {} \<or> set ?xs = {0}" by (rule subset_singletonD)
  then show ?thesis
  proof
    assume "set ?xs = {}"
    then have "length (np_unique ?xs) = 0" by (simp only: length_np_unique card.empty)
    then show ?thesis by (simp add: load_mask_img_def Let_def)
  next
    assume s: "set ?xs = {0}"
    then have l: "length (np_unique ?xs) = 1" by (simp only: length_np_unique) simp
    then obtain v where v: "np_unique ?xs = [v]"
      by (cases "np_unique ?xs") auto
    then have "set ?xs = {v}" using set_np_unique [of ?xs] by simp
    then have "v \<in> set ?xs" by blast
    with s have "v = 0" by simp
    with v l show ?thesis by (simp add: load_mask_img_def Let_def)
  qed
qed

text \<open>A mask that is accepted has an active voxel.\<close>

lemma load_mask_img_accepts:
  assumes "load_mask_img (Some m) = Inr r"
  shows "active_voxels m \<noteq> []"
    and "r = ((mask_shape m, \<lambda>v. mask_data m v \<noteq> 0), mask_affine m)"
proof -
  show "active_voxels m \<noteq> []"
    using assms load_mask_img_empty [of m] by (cases "active_voxels m = []") auto
  show "r = ((mask_shape m, \<lambda>v. mask_data m v \<noteq> 0), mask_affine m)"
    using assms by (auto simp: load_mask_img_def Let_def split: if_splits)
qed

lemma helper_with_mask:
  "apply_mask_and_get_affinity e seeds niimg r ao (Some m) =
     (let m' = aligned_mask e niimg m; vs = active_voxels m' in
        case load_mask_img (Some m') of
          Inl err \<Rightarrow> Inl err
        | Inr loaded \<Rightarrow>
            (case radius_neighbors_graph r (map (to_world (grid_affine niimg m)) vs) seeds of
               Inl err \<Rightarrow> Inl err
             | Inr A \<Rightarrow> Inr (map_option (\<lambda>img. intensities img vs) niimg, A)))"
proof (cases "load_mask_img (Some (aligned_mask e niimg m))")
  case (Inl err)
  then show ?thesis
    by (cases niimg)
       (simp_all add: apply_mask_and_get_affinity_def aligned_mask_def Let_def)
next
  case (Inr loaded)
  note a = load_mask_img_accepts [OF Inr]
  show ?thesis
    using Inr a
    by (cases niimg)
       (auto simp: apply_mask_and_get_affinity_def aligned_mask_def grid_affine_def Let_def
          active_voxels_def world_coords_eq intensities_def apply_mask_def
          split: img_data.splits sum.splits)
qed

lemma helper_without_mask:
  "apply_mask_and_get_affinity e seeds niimg r ao None =
     (case niimg of None \<Rightarrow> Inl TypeError
      | Some img \<Rightarrow> Inl (ValueError ''Either niimg or mask_img must be provided''))"
  by (cases niimg) (auto simp: apply_mask_and_get_affinity_def load_mask_img_def)


lemma extract_always_empty: "extract_buffer_zone_data self e cf imf radius = []"
  by (auto simp: extract_buffer_zone_data_def extract_buffer_zone_data_with_def extract_body_def
      helper_without_mask Let_def split: sum.splits)

subsection \<open>Distances, and the radius of a record\<close>

lemma euclidean_le_iff:
  "euclidean p q \<le> r \<longleftrightarrow>
     0 \<le> r \<and> (fst p - fst q)\<^sup>2 + (fst (snd p) - fst (snd q))\<^sup>2 + (snd (snd p) - snd (snd q))\<^sup>2 \<le> r\<^sup>2"
proof -
  obtain x y z x' y' z' where pq: "p = (x, y, z)" "q = (x', y', z')"
    by (cases p; cases q) auto
  let ?d = "(x - x')\<^sup>2 + (y - y')\<^sup>2 + (z - z')\<^sup>2"
  have nn: "0 \<le> ?d" by simp
  show ?thesis
  proof (cases "0 \<le> r")
    case True
    then have "sqrt ?d \<le> r \<longleftrightarrow> ?d \<le> r\<^sup>2"
      using nn by (metis real_sqrt_le_iff real_sqrt_abs abs_of_nonneg)
    then show ?thesis using True by (simp add: pq euclidean_def)
  next
    case False
    have "0 \<le> sqrt ?d" using nn by simp
    then have "\<not> sqrt ?d \<le> r" using False by linarith
    then show ?thesis using False by (simp add: pq euclidean_def)
  qed
qed

lemma seed_loop_radius:
  "seed_loop X A r iseeds acc = Inr rows \<Longrightarrow> rec \<in> set rows
     \<Longrightarrow> rec \<in> set acc \<or> radius_mm rec = r"
proof (induction iseeds arbitrary: acc)
  case Nil
  then show ?case by simp
next
  case (Cons a iseeds)
  obtain i s where a: "a = (i, s)" by (cases a)
  show ?case
  proof (cases "py_index A i")
    case (Inl err)
    with Cons.prems show ?thesis by (simp add: a)
  next
    case (Inr row)
    show ?thesis
    proof (cases "length (nonzero row) = 0")
      case True
      with Cons.prems Inr have "seed_loop X A r iseeds acc = Inr rows"
        by (simp add: a)
      from Cons.IH [OF this Cons.prems(2)] show ?thesis .
    next
      case False
      show ?thesis
      proof (cases "sphere_stats X (nonzero row)")
        case (Inl err)
        with Cons.prems Inr False show ?thesis by (simp add: a Let_def)
      next
        case st: (Inr stats)
        obtain mean_val std_val max_val min_val where
          stats: "stats = (mean_val, std_val, max_val, min_val)"
          by (cases stats) auto
        let ?new = "\<lparr> seed_id = i, seed_x = fst s, seed_y = fst (snd s), seed_z = snd (snd s),
                        radius_mm = r, voxel_count = length (nonzero row),
                        mean_value = mean_val, std_value = std_val,
                        max_value = max_val, min_value = min_val \<rparr>"
        from Cons.prems Inr False st have "seed_loop X A r iseeds (acc @ [?new]) = Inr rows"
          by (simp add: a Let_def stats)
        from Cons.IH [OF this Cons.prems(2)] show ?thesis by auto
      qed
    qed
  qed
qed

lemma extract_body_radius:
  "extract_body h self e cf imf r = Inr rows \<Longrightarrow> rec \<in> set rows \<Longrightarrow> radius_mm rec = r"
  by (auto simp: extract_body_def Let_def split: sum.splits if_splits dest: seed_loop_radius)

lemma py_or_falsy: "radius = None \<or> radius = Some 0 \<Longrightarrow> py_or radius d = d"
  by (auto simp: py_or_def)

subsection \<open>The concrete inputs, evaluated\<close>

lemma demo_seeds:
  "seeds_of demo_df = [(Val 0, Val 0, Val 0), (Val 1, Val 0, Val 0), (Val 100, Val 100, Val 100)]"
  by (simp add: seeds_of_def demo_df_def)

lemma demo_points:
  "seed_point (seeds_of demo_df ! 0) = (0, 0, 0)"
  "seed_point (seeds_of demo_df ! Suc 0) = (1, 0, 0)"
  "seed_point (seeds_of demo_df ! 2) = (100, 100, 100)"
  by (simp_all add: demo_seeds seed_point_def np_real_def)

lemma demo_grid: "grid (2, Suc 0, Suc 0) = [(0, 0, 0), (Suc 0, 0, 0)]"
  by (simp add: grid_def numeral_2_eq_2)

lemma demo_active: "active_voxels demo_mask = [(0, 0, 0), (Suc 0, 0, 0)]"
  by (simp add: active_voxels_def np_nonzero_def demo_grid demo_mask_def)

lemma zero_active: "active_voxels zero_mask = []"
  by (simp add: active_voxels_def np_nonzero_def zero_mask_def)

lemma demo_aligned:
  "aligned_mask e None m = m"
  "aligned_mask demo_env (Some demo_img) demo_mask = demo_mask"
  "aligned_mask demo_env (Some demo_img) zero_mask = zero_mask"
  by (simp_all add: aligned_mask_def resample_img_def demo_env_def demo_img_def demo_mask_def
      zero_mask_def)

lemma demo_grid_affine:
  "grid_affine (Some demo_img) m = demo_affine" "grid_affine None demo_mask = demo_affine"
  by (simp_all add: grid_affine_def demo_img_def demo_mask_def)

lemma demo_matched:
  "matched_voxels demo_affine demo_mask (0, 0, 0) 1 = [(0, 0, 0)]"
  "matched_voxels demo_affine demo_mask (1, 0, 0) 1 = [(0, 0, 0), (Suc 0, 0, 0)]"
  "matched_voxels demo_affine demo_mask (100, 100, 100) 1 = []"
  "matched_voxels demo_affine demo_mask (0, 0, 0) 3 = [(0, 0, 0), (Suc 0, 0, 0)]"
  "matched_voxels demo_affine demo_mask (0, 0, 0) 5 = [(0, 0, 0), (Suc 0, 0, 0)]"
  by (simp_all add: matched_voxels_def demo_grid demo_mask_def demo_affine_def to_world_def
      dot_row_def euclidean_le_iff)

lemma demo_values: "matched_values demo_img [(0, 0, 0), (Suc 0, 0, 0)] = [10, 20]"
  by (simp add: matched_values_def volumes_def demo_img_def)

lemma sqrt_25: "sqrt 25 = 5"
  using real_sqrt_abs [of 5] by simp

lemma demo_stats:
  "np_mean [10, 20] = Val 15" "np_std [10, 20] = Val 5"
  "np_max [10, 20] = Inr (Val 20)" "np_min [10, 20] = Inr (Val 10)"
  by (simp_all add: np_mean_def np_std_def np_max_def np_min_def sqrt_25)

lemma demo_self_fields:
  "default_radius demo_self = 5" "allow_overlap demo_self = False"
  "radius_options demo_self = Some [Some 1, Some 3]"
  "coordinates_dir demo_self = ''in/coordinates''" "images_dir demo_self = ''in/images''"
  by (simp_all add: demo_self_def new_analyzer_def path_join_def)

lemma demo_read:
  "read_csv demo_env ''in/coordinates/s_0001.csv'' = Inr demo_df"
  "read_csv demo_env ''in/coordinates/s_0002.csv'' = Inr demo_df"
  "read_csv demo_env ''in/coordinates/bad_0003.csv'' = Inl (OSError ''cannot read'')"
  "load_img demo_env ''in/images/t1.nii.gz'' = Inr demo_img"
  "\<not> list_ex (\<lambda>c. c \<notin> set (df_columns demo_df)) required_cols"
  by (simp_all add: demo_env_def demo_df_def required_cols_def)

lemma demo_body:
  "extract_body (apply_mask_and_get_affinity demo_env) demo_self demo_env
     ''in/coordinates/s_0001.csv'' ''in/images/t1.nii.gz'' r
   = Inl (ValueError ''Either niimg or mask_img must be provided'')"
  using demo_read(5) by (simp add: extract_body_def demo_read(1,4) helper_without_mask)

subsection \<open>The call without a mask\<close>



lemma radius_loop_empty:
  "(\<And>r. ex f img r = []) \<Longrightarrow> radius_loop ex f img sid radii acc = acc"
  by (induction radii arbitrary: acc) simp_all

lemma file_loop_empty:
  "(\<And>f r. ex f img r = []) \<Longrightarrow> file_loop ex img radii files acc = acc"
  by (induction files arbitrary: acc) (simp_all add: radius_loop_empty split: option.splits)

lemma process_always_none: "process_coordinate_files self e = None"
  by (simp add: process_coordinate_files_def process_coordinate_files_with_def Let_def
      file_loop_empty extract_always_empty write_results_def)

lemma reported_count_empty: "reported_count [] i = 0"
  by (simp add: reported_count_def)



subsection \<open>What the extraction reports\<close>

text \<open>Claim C1, at the concrete table and image, for the mask of both voxels and radius 3:
  the brute-force count for the seed at the origin is 2, and the extraction returns the
  empty table, so that the count it reports for this seed is 0.\<close>

theorem reported_count_misses_brute_force:
  "brute_force_count demo_affine demo_mask (seed_point (seeds_of demo_df ! 0)) 3 = 2
   \<and> extract_buffer_zone_data demo_self demo_env
        ''in/coordinates/s_0001.csv'' ''in/images/t1.nii.gz'' (Some 3) = []
   \<and> reported_count
        (extract_buffer_zone_data demo_self demo_env
           ''in/coordinates/s_0001.csv'' ''in/images/t1.nii.gz'' (Some 3)) 0 = 0"
  by (simp add: brute_force_count_def demo_points demo_matched extract_always_empty
      reported_count_empty)

text \<open>Claim C3, at the concrete table and image, for the mask of both voxels and radius 1:
  the second seed has two matched voxels, the table holds no record of it, and the table
  is empty because the body of the extraction raised \<^verbatim>\<open>ValueError\<close>.\<close>

theorem matched_seed_without_record:
  "matched_voxels demo_affine demo_mask (seed_point (seeds_of demo_df ! 1)) 1
     = [(0, 0, 0), (1, 0, 0)]
   \<and> filter (\<lambda>rec. seed_id rec = 1)
        (extract_buffer_zone_data demo_self demo_env
           ''in/coordinates/s_0001.csv'' ''in/images/t1.nii.gz'' (Some 1)) = []
   \<and> extract_body (apply_mask_and_get_affinity demo_env) demo_self demo_env
        ''in/coordinates/s_0001.csv'' ''in/images/t1.nii.gz'' (py_or (Some 1) (default_radius demo_self))
      = Inl (ValueError ''Either niimg or mask_img must be provided'')"
  by (simp add: demo_points demo_matched extract_always_empty demo_body)

text \<open>Claim C8, at the concrete table and image, for the mask of both voxels and radius 3:
  the seed at the origin has two matched voxels with the intensities 10 and 20, whose
  mean is 15, population standard deviation 5, maximum 20 and minimum 10, and the
  extraction returns the empty table: no record carries these values.\<close>

theorem matched_seed_without_statistics:
  "matched_values demo_img
     (matched_voxels demo_affine demo_mask (seed_point (seeds_of demo_df ! 0)) 3) = [10, 20]
   \<and> np_mean [10, 20] = Val 15 \<and> np_std [10, 20] = Val 5
   \<and> np_max [10, 20] = Inr (Val 20) \<and> np_min [10, 20] = Inr (Val 10)
   \<and> load_img demo_env ''in/images/t1.nii.gz'' = Inr demo_img
   \<and> extract_buffer_zone_data demo_self demo_env
        ''in/coordinates/s_0001.csv'' ''in/images/t1.nii.gz'' (Some 3) = []"
  by (simp add: demo_points demo_matched demo_values demo_stats demo_read extract_always_empty)

text \<open>Claim C7: for two radii of the configured radius options (the default radius when
  none are configured), the voxel count that \<^verbatim>\<open>extract_buffer_zone_data\<close> reports for a seed at
  the smaller radius is at most the one it reports at the larger radius, a seed without a
  record counting 0. Every such count is 0: the loop over the radii collects no table,
  and \<^verbatim>\<open>process_coordinate_files\<close> writes none.\<close>

theorem voxel_count_monotone_over_radius_options:
  "(Some r1 \<in> set (case radius_options self of None \<Rightarrow> [Some (default_radius self)] | Some rs \<Rightarrow> rs)
      \<and> Some r2 \<in> set (case radius_options self of None \<Rightarrow> [Some (default_radius self)] | Some rs \<Rightarrow> rs)
      \<and> r1 \<le> r2
    \<longrightarrow> reported_count (extract_buffer_zone_data self e coord_file default_image (Some r1)) i
        \<le> reported_count (extract_buffer_zone_data self e coord_file default_image (Some r2)) i)
   \<and> reported_count (extract_buffer_zone_data self e coord_file default_image radius) i = 0
   \<and> radius_loop (extract_buffer_zone_data self e) coord_file default_image sid
        (case radius_options self of None \<Rightarrow> [Some (default_radius self)] | Some rs \<Rightarrow> rs) all_results
      = all_results
   \<and> process_coordinate_files self e = None"
  by (simp add: extract_always_empty reported_count_empty radius_loop_empty process_always_none)

theorem voxel_count_monotone_over_radius_options_witness:
  "Some 1 \<in> set (case radius_options demo_self of None \<Rightarrow> [Some (default_radius demo_self)] | Some rs \<Rightarrow> rs)
   \<and> Some 3 \<in> set (case radius_options demo_self of None \<Rightarrow> [Some (default_radius demo_self)] | Some rs \<Rightarrow> rs)
   \<and> (1 :: real) \<le> 3
   \<and> reported_count (extract_buffer_zone_data demo_self demo_env
         ''in/coordinates/s_0001.csv'' ''in/images/t1.nii.gz'' (Some 1)) 0
      \<le> reported_count (extract_buffer_zone_data demo_self demo_env
           ''in/coordinates/s_0001.csv'' ''in/images/t1.nii.gz'' (Some 3)) 0"
  using voxel_count_monotone_over_radius_options [where self = demo_self and e = demo_env
      and ?r1.0 = 1 and ?r2.0 = 3 and coord_file = "''in/coordinates/s_0001.csv''"
      and default_image = "''in/images/t1.nii.gz''" and i = 0]
  by (simp add: demo_self_fields)

subsection \<open>The helper with a mask\<close>

lemma rng_result:
  "radius_neighbors_graph r pts seeds = Inr A \<Longrightarrow>
     A = map (\<lambda>s. map (\<lambda>p. euclidean p (seed_point s) \<le> r) pts) seeds"
  by (auto simp: radius_neighbors_graph_def split: if_splits)

lemma rng_row:
  "radius_neighbors_graph r pts seeds = Inr A \<Longrightarrow> i < length seeds \<Longrightarrow>
     A ! i = map (\<lambda>p. euclidean p (seed_point (seeds ! i)) \<le> r) pts"
  using rng_result [of r pts seeds A] by simp

lemma helper_result:
  assumes "apply_mask_and_get_affinity e seeds niimg R ao (Some m) = Inr (X, A)"
  shows "X = map_option (\<lambda>img. intensities img (active_voxels (aligned_mask e niimg m))) niimg"
    and "radius_neighbors_graph R
           (map (to_world (grid_affine niimg m)) (active_voxels (aligned_mask e niimg m))) seeds
         = Inr A"
  using assms by (auto simp: helper_with_mask Let_def split: sum.splits)

lemma demo_load: "load_mask_img (Some demo_mask) = Inr (((2, 1, 1), \<lambda>v. True), demo_affine)"
  by (simp add: load_mask_img_def demo_mask_def np_unique_def grid_def numeral_2_eq_2)

lemma demo_graph:
  "0 \<le> r \<Longrightarrow>
   radius_neighbors_graph r (map (to_world demo_affine) [(0, 0, 0), (Suc 0, 0, 0)]) (seeds_of demo_df)
     = Inr [[True, 4 \<le> r\<^sup>2], [1 \<le> r\<^sup>2, 1 \<le> r\<^sup>2], [30000 \<le> r\<^sup>2, 29604 \<le> r\<^sup>2]]"
  by (simp add: radius_neighbors_graph_def demo_seeds finite_seed_def is_finite_def seed_point_def
      np_real_def to_world_def demo_affine_def dot_row_def euclidean_le_iff power2_eq_square)

lemma demo_helper:
  "0 \<le> r \<Longrightarrow>
   apply_mask_and_get_affinity demo_env (seeds_of demo_df) (Some demo_img) r ao (Some demo_mask)
     = Inr (Some [[10, 20]],
            [[True, 4 \<le> r\<^sup>2], [1 \<le> r\<^sup>2, 1 \<le> r\<^sup>2], [30000 \<le> r\<^sup>2, 29604 \<le> r\<^sup>2]])"
proof -
  assume r: "0 \<le> r"
  have i: "intensities demo_img [(0, 0, 0), (Suc 0, 0, 0)] = [[10, 20]]"
    by (simp add: intensities_def demo_img_def)
  show ?thesis
    unfolding helper_with_mask demo_aligned demo_grid_affine demo_active demo_load Let_def
      demo_graph [OF r]
    by (simp add: i)
qed

lemma demo_table_at:
  assumes "cf = ''in/coordinates/s_0001.csv'' \<or> cf = ''in/coordinates/s_0002.csv''"
      and "0 \<le> py_or radius 5"
  shows "extract_buffer_zone_data_with (helper_with demo_env demo_mask) demo_self demo_env
           cf ''in/images/t1.nii.gz'' radius
         = (case seed_loop (Some [[10, 20]])
                   [[True, 4 \<le> (py_or radius 5)\<^sup>2],
                    [1 \<le> (py_or radius 5)\<^sup>2, 1 \<le> (py_or radius 5)\<^sup>2],
                    [30000 \<le> (py_or radius 5)\<^sup>2, 29604 \<le> (py_or radius 5)\<^sup>2]]
                   (py_or radius 5) (enumerate 0 (seeds_of demo_df)) [] of
              Inl err \<Rightarrow> [] | Inr rows \<Rightarrow> rows)"
proof -
  have rd: "read_csv demo_env cf = Inr demo_df"
    using assms demo_read(1,2) by auto
  show ?thesis
    using demo_read(5)
    by (simp add: extract_buffer_zone_data_with_def extract_body_def helper_with_def rd
        demo_read(4) demo_self_fields demo_helper [OF assms(2)])
qed

lemma demo_rows:
  assumes "cf = ''in/coordinates/s_0001.csv'' \<or> cf = ''in/coordinates/s_0002.csv''"
  shows "map (\<lambda>rec. (seed_id rec, radius_mm rec, voxel_count rec))
           (extract_buffer_zone_data_with (helper_with demo_env demo_mask) demo_self demo_env
              cf ''in/images/t1.nii.gz'' (Some 1)) = [(0, 1, 1), (1, 1, 2)]"
    and "map (\<lambda>rec. (seed_id rec, radius_mm rec, voxel_count rec))
           (extract_buffer_zone_data_with (helper_with demo_env demo_mask) demo_self demo_env
              cf ''in/images/t1.nii.gz'' (Some 3)) = [(0, 3, 2), (1, 3, 2)]"
    and "map (\<lambda>rec. (seed_id rec, radius_mm rec, voxel_count rec))
           (extract_buffer_zone_data_with (helper_with demo_env demo_mask) demo_self demo_env
              cf ''in/images/t1.nii.gz'' (Some 0)) = [(0, 5, 2), (1, 5, 2)]"
  by (simp_all add: demo_table_at [OF assms] py_or_def demo_seeds enumerate_eq_zip py_index_def
      nonzero_def sphere_stats_def take_columns_def np_max_def np_min_def Let_def)

subsection \<open>A mask without an active voxel\<close>

lemma zero_load:
  "load_mask_img (Some zero_mask)
     = Inl (ValueError ''The mask is invalid as it is empty: it is full of zeros.'')"
  by (simp add: load_mask_img_def zero_mask_def np_unique_def grid_def numeral_2_eq_2)

lemma helper_empty_mask:
  assumes "active_voxels (aligned_mask e niimg m) = []"
  shows "\<exists>msg. load_mask_img (Some (aligned_mask e niimg m)) = Inl (ValueError msg)
           \<and> apply_mask_and_get_affinity e seeds niimg r ao (Some m) = Inl (ValueError msg)"
proof -
  from load_mask_img_empty [OF assms] obtain msg where
    l: "load_mask_img (Some (aligned_mask e niimg m)) = Inl (ValueError msg)" ..
  then have "apply_mask_and_get_affinity e seeds niimg r ao (Some m) = Inl (ValueError msg)"
    by (simp add: helper_with_mask Let_def)
  with l show ?thesis by blast
qed

text \<open>Claim C5, as stated, at the mask of two voxels that are both 0: the helper raises
  \<^verbatim>\<open>ValueError\<close>, without an image and with one.\<close>

theorem empty_mask_raises_value_error:
  "active_voxels zero_mask = []
   \<and> apply_mask_and_get_affinity demo_env (seeds_of demo_df) None 3 False (Some zero_mask)
      = Inl (ValueError ''The mask is invalid as it is empty: it is full of zeros.'')
   \<and> apply_mask_and_get_affinity demo_env (seeds_of demo_df) (Some demo_img) 3 False (Some zero_mask)
      = Inl (ValueError ''The mask is invalid as it is empty: it is full of zeros.'')"
  by (simp add: zero_active helper_with_mask demo_aligned zero_load Let_def)

text \<open>Claim C5, amended: when the mask, on the grid that is indexed, has no active voxel,
  the helper raises the \<^verbatim>\<open>ValueError\<close> with which \<^verbatim>\<open>_load_mask_img\<close> rejects the mask, for all
  seeds and every radius, with an image and without one; no index is built and no query
  is made. \<^verbatim>\<open>extract_buffer_zone_data\<close>, whose handler catches every exception of its body,
  returns the empty table.\<close>

theorem empty_mask_is_rejected:
  "(active_voxels (aligned_mask e niimg m) = [] \<longrightarrow>
      (\<exists>msg. load_mask_img (Some (aligned_mask e niimg m)) = Inl (ValueError msg)
          \<and> apply_mask_and_get_affinity e seeds niimg r ao (Some m) = Inl (ValueError msg)))
   \<and> extract_buffer_zone_data self e coordinates_file image_file radius = []"
  using helper_empty_mask [of e niimg m seeds r ao] extract_always_empty by blast

theorem empty_mask_is_rejected_witness:
  "active_voxels (aligned_mask demo_env (Some demo_img) zero_mask) = []
   \<and> (\<exists>msg. load_mask_img (Some (aligned_mask demo_env (Some demo_img) zero_mask)) = Inl (ValueError msg)
         \<and> apply_mask_and_get_affinity demo_env [(Val 1, Val 0, Val 0)] (Some demo_img) 1 True
             (Some zero_mask) = Inl (ValueError msg))
   \<and> extract_buffer_zone_data demo_self demo_env
        ''in/coordinates/s_0002.csv'' ''in/images/t1.nii.gz'' (Some 1) = []"
  using empty_mask_is_rejected [where e = demo_env and niimg = "Some demo_img" and m = zero_mask
      and seeds = "[(Val 1, Val 0, Val 0)]" and r = 1 and ao = True and self = demo_self
      and coordinates_file = "''in/coordinates/s_0002.csv''"
      and image_file = "''in/images/t1.nii.gz''" and radius = "Some 1"]
  by (simp add: demo_aligned zero_active)

subsection \<open>The radius of a query\<close>

lemma py_or_zero_iff: "py_or radius d = 0 \<longleftrightarrow> (radius = None \<or> radius = Some 0) \<and> d = 0"
  by (auto simp: py_or_def split: option.splits)

lemma zero_self_fields: "default_radius zero_self = 0"
  by (simp add: zero_self_def new_analyzer_def)

text \<open>Claim C10, as stated, at an analyzer whose configuration sets \<^verbatim>\<open>default_radius\<close> to 0:
  for the radius argument 0, and for \<^verbatim>\<open>None\<close>, the radius of the body and of the helper call
  is 0. And at the analyzer with the default radius 5: the call with radius 0 returns the
  empty table, which reports the count 0 for the first seed.\<close>

theorem radius_zero_reaches_helper:
  "default_radius zero_self = 0
   \<and> py_or (Some 0) (default_radius zero_self) = 0
   \<and> py_or None (default_radius zero_self) = 0
   \<and> extract_buffer_zone_data_with (apply_mask_and_get_affinity demo_env) zero_self demo_env
        ''in/coordinates/s_0001.csv'' ''in/images/t1.nii.gz'' (Some 0)
      = (case extract_body (apply_mask_and_get_affinity demo_env) zero_self demo_env
                ''in/coordinates/s_0001.csv'' ''in/images/t1.nii.gz'' 0 of
           Inl err \<Rightarrow> [] | Inr results \<Rightarrow> results)
   \<and> reported_count (extract_buffer_zone_data demo_self demo_env
        ''in/coordinates/s_0001.csv'' ''in/images/t1.nii.gz'' (Some 0)) 0 = 0"
  by (simp add: zero_self_fields py_or_def extract_buffer_zone_data_with_def extract_always_empty
      reported_count_empty)

text \<open>Claim C10, amended: a radius argument of \<^verbatim>\<open>None\<close> or 0 is replaced by \<^verbatim>\<open>default_radius\<close> at
  line 71: the body of \<^verbatim>\<open>extract_buffer_zone_data\<close>, and with it the helper call, runs at
  \<^verbatim>\<open>default_radius\<close>, whatever the helper method does; the table is the one of a call with
  \<^verbatim>\<open>default_radius\<close>, and every record of it carries \<^verbatim>\<open>default_radius\<close> as its radius.
  \<^verbatim>\<open>default_radius\<close> is 5.0 when the configuration does not set it, and the configured
  value otherwise. The body and the helper call run at radius 0 exactly when the argument
  is \<^verbatim>\<open>None\<close> or 0 and \<^verbatim>\<open>default_radius\<close> is 0.\<close>

theorem falsy_radius_replaced_by_default:
  "(radius = None \<or> radius = Some 0 \<longrightarrow>
       py_or radius (default_radius self) = default_radius self
     \<and> extract_buffer_zone_data_with h self e coordinates_file image_file radius =
         (case extract_body h self e coordinates_file image_file (default_radius self) of
            Inl err \<Rightarrow> [] | Inr results \<Rightarrow> results)
     \<and> extract_buffer_zone_data_with h self e coordinates_file image_file radius =
         extract_buffer_zone_data_with h self e coordinates_file image_file
           (Some (default_radius self))
     \<and> (\<forall>rec \<in> set (extract_buffer_zone_data_with h self e coordinates_file image_file radius).
           radius_mm rec = default_radius self))
   \<and> (py_or radius (default_radius self) = 0
        \<longleftrightarrow> (radius = None \<or> radius = Some 0) \<and> default_radius self = 0)
   \<and> default_radius (new_analyzer (cfg\<lparr>cfg_default_radius := None\<rparr>)) = 5
   \<and> default_radius (new_analyzer (cfg\<lparr>cfg_default_radius := Some d\<rparr>)) = d"
proof -
  have d: "py_or (Some (default_radius self)) (default_radius self) = default_radius self"
    by (simp add: py_or_def)
  have "radius_mm rec = default_radius self"
    if f: "radius = None \<or> radius = Some 0"
      and "rec \<in> set (extract_buffer_zone_data_with h self e coordinates_file image_file radius)"
    for rec
  proof (cases "extract_body h self e coordinates_file image_file (default_radius self)")
    case (Inl err)
    with that show ?thesis by (simp add: extract_buffer_zone_data_with_def py_or_falsy [OF f])
  next
    case (Inr rows)
    with that have "rec \<in> set rows"
      by (simp add: extract_buffer_zone_data_with_def py_or_falsy [OF f])
    with Inr show ?thesis by (rule extract_body_radius)
  qed
  then show ?thesis
    by (simp add: extract_buffer_zone_data_with_def py_or_falsy d new_analyzer_def py_or_zero_iff)
qed

theorem falsy_radius_replaced_by_default_witness:
  "(Some (0::real) = None \<or> Some (0::real) = Some 0)
   \<and> default_radius demo_self = 5
   \<and> py_or (Some 0) (default_radius demo_self) = 5
   \<and> extract_buffer_zone_data demo_self demo_env
        ''in/coordinates/s_0001.csv'' ''in/images/t1.nii.gz'' (Some 0)
      = extract_buffer_zone_data demo_self demo_env
        ''in/coordinates/s_0001.csv'' ''in/images/t1.nii.gz'' (Some 5)
   \<and> extract_buffer_zone_data_with (helper_with demo_env demo_mask) demo_self demo_env
        ''in/coordinates/s_0001.csv'' ''in/images/t1.nii.gz'' (Some 0)
      = extract_buffer_zone_data_with (helper_with demo_env demo_mask) demo_self demo_env
        ''in/coordinates/s_0001.csv'' ''in/images/t1.nii.gz'' (Some 5)
   \<and> map radius_mm
        (extract_buffer_zone_data_with (helper_with demo_env demo_mask) demo_self demo_env
           ''in/coordinates/s_0001.csv'' ''in/images/t1.nii.gz'' (Some 0)) = [5, 5]"
proof -
  let ?t = "extract_buffer_zone_data_with (helper_with demo_env demo_mask) demo_self demo_env
              ''in/coordinates/s_0001.csv'' ''in/images/t1.nii.gz'' (Some 0)"
  have f: "Some (0::real) = None \<or> Some (0::real) = Some 0" by simp
  note own = falsy_radius_replaced_by_default [where radius = "Some 0" and self = demo_self
      and e = demo_env and coordinates_file = "''in/coordinates/s_0001.csv''"
      and image_file = "''in/images/t1.nii.gz''" and h = "apply_mask_and_get_affinity demo_env",
      THEN conjunct1, THEN mp, OF f, folded extract_buffer_zone_data_def]
  note sub = falsy_radius_replaced_by_default [where radius = "Some 0" and self = demo_self
      and e = demo_env and coordinates_file = "''in/coordinates/s_0001.csv''"
      and image_file = "''in/images/t1.nii.gz''" and h = "helper_with demo_env demo_mask",
      THEN conjunct1, THEN mp, OF f]
  have k: "map (\<lambda>rec. (seed_id rec, radius_mm rec, voxel_count rec)) ?t = [(0, 5, 2), (1, 5, 2)]"
    by (rule demo_rows(3)) simp
  have "length ?t = 2"
    using arg_cong [OF k, of length] by simp
  then obtain a b where ab: "?t = [a, b]"
    by (cases ?t; cases "tl ?t") auto
  note all = sub [THEN conjunct2, THEN conjunct2, THEN conjunct2, unfolded demo_self_fields(1)]
  then have m: "map radius_mm ?t = [5, 5]"
    unfolding ab by simp
  have o: "py_or (Some 0) (default_radius demo_self) = 5"
    using own [THEN conjunct1] by (simp add: demo_self_fields(1))
  note o2 = own [THEN conjunct2, THEN conjunct2, THEN conjunct1, unfolded demo_self_fields(1)]
  note s2 = sub [THEN conjunct2, THEN conjunct2, THEN conjunct1, unfolded demo_self_fields(1)]
  show ?thesis
    apply (intro conjI)
         apply (rule f)
        apply (rule demo_self_fields(1))
       apply (rule o)
      apply (rule o2)
     apply (rule s2)
    apply (rule m)
    done
qed

subsection \<open>The flag \<^verbatim>\<open>allow_overlap\<close>\<close>

lemma helper_ignores_flag:
  "apply_mask_and_get_affinity e seeds niimg r ao mask_img =
   apply_mask_and_get_affinity e seeds niimg r ao' mask_img"
  by (simp add: apply_mask_and_get_affinity_def)

lemma extract_ignores_flag:
  "extract_buffer_zone_data (self\<lparr>allow_overlap := b\<rparr>) e = extract_buffer_zone_data self e"
proof -
  have "extract_body (apply_mask_and_get_affinity e) (self\<lparr>allow_overlap := b\<rparr>) e cf imf r =
        extract_body (apply_mask_and_get_affinity e) self e cf imf r" for cf imf r
    unfolding extract_body_def
    by (simp add: Let_def helper_ignores_flag [of e _ _ _ b _ "allow_overlap self"]
        cong: sum.case_cong if_cong)
  then show ?thesis
    by (intro ext) (simp add: extract_buffer_zone_data_def extract_buffer_zone_data_with_def)
qed

lemma process_with_flag:
  "process_coordinate_files_with ex (self\<lparr>allow_overlap := b\<rparr>) e =
   process_coordinate_files_with ex self e"
  by (simp add: process_coordinate_files_with_def Let_def cong: if_cong option.case_cong)

lemma new_analyzer_flag:
  "new_analyzer (cfg\<lparr>cfg_allow_overlap := b\<rparr>) =
   (new_analyzer cfg)\<lparr>allow_overlap := (case b of None \<Rightarrow> False | Some v \<Rightarrow> v)\<rparr>"
  by (simp add: new_analyzer_def)

text \<open>Claim C6: the helper returns the same for both values of the flag;
  \<^verbatim>\<open>extract_buffer_zone_data\<close> and \<^verbatim>\<open>process_coordinate_files\<close> return the same table for two
  analyzers, and for two configurations, that differ only in the flag; and the row of a
  seed in the connectivity matrix, with the intensity rows, is the same in any two
  batches that hold the seed, whatever the other seeds and the flag are.\<close>

theorem allow_overlap_never_consulted:
  "apply_mask_and_get_affinity e seeds niimg r ao mask_img =
     apply_mask_and_get_affinity e seeds niimg r ao' mask_img
   \<and> extract_buffer_zone_data (self\<lparr>allow_overlap := b\<rparr>) e coordinates_file image_file radius =
       extract_buffer_zone_data self e coordinates_file image_file radius
   \<and> process_coordinate_files (self\<lparr>allow_overlap := b\<rparr>) e = process_coordinate_files self e
   \<and> process_coordinate_files (new_analyzer (cfg\<lparr>cfg_allow_overlap := c\<rparr>)) e =
       process_coordinate_files (new_analyzer cfg) e
   \<and> (i < length seeds \<and> j < length seeds' \<and> seeds ! i = seeds' ! j
        \<and> apply_mask_and_get_affinity e seeds niimg r ao (Some m) = Inr (X, A)
        \<and> apply_mask_and_get_affinity e seeds' niimg r ao' (Some m) = Inr (X', A')
      \<longrightarrow> X = X' \<and> A ! i = A' ! j)"
proof -
  have p: "process_coordinate_files (self\<lparr>allow_overlap := b\<rparr>) e = process_coordinate_files self e"
    for self b
    by (simp add: process_coordinate_files_def extract_ignores_flag process_with_flag)
  have "X = X' \<and> A ! i = A' ! j"
    if "i < length seeds" "j < length seeds'" "seeds ! i = seeds' ! j"
      "apply_mask_and_get_affinity e seeds niimg r ao (Some m) = Inr (X, A)"
      "apply_mask_and_get_affinity e seeds' niimg r ao' (Some m) = Inr (X', A')"
    using that(3) helper_result(1) [OF that(4)] helper_result(1) [OF that(5)]
      rng_row [OF helper_result(2) [OF that(4)] that(1)]
      rng_row [OF helper_result(2) [OF that(5)] that(2)]
    by simp
  then show ?thesis
    using helper_ignores_flag [of e seeds niimg r ao mask_img ao']
    by (simp add: extract_ignores_flag p new_analyzer_flag)
qed

theorem allow_overlap_never_consulted_witness:
  "\<exists>X A X' A'.
     1 < length (seeds_of demo_df) \<and> 0 < length [(Val 1, Val 0, Val 0) :: seed]
   \<and> seeds_of demo_df ! 1 = [(Val 1, Val 0, Val 0)] ! 0
   \<and> apply_mask_and_get_affinity demo_env (seeds_of demo_df) (Some demo_img) 1 False (Some demo_mask)
       = Inr (X, A)
   \<and> apply_mask_and_get_affinity demo_env [(Val 1, Val 0, Val 0)] (Some demo_img) 1 True (Some demo_mask)
       = Inr (X', A')
   \<and> X = X' \<and> A ! 1 = A' ! 0"
proof -
  obtain X A where h:
    "apply_mask_and_get_affinity demo_env (seeds_of demo_df) (Some demo_img) 1 False (Some demo_mask)
       = Inr (X, A)"
    by (simp add: demo_helper)
  obtain X' A' where h':
    "apply_mask_and_get_affinity demo_env [(Val 1, Val 0, Val 0)] (Some demo_img) 1 True (Some demo_mask)
       = Inr (X', A')"
    by (simp add: helper_with_mask demo_aligned demo_active demo_load Let_def
        radius_neighbors_graph_def finite_seed_def is_finite_def)
  have l: "1 < length (seeds_of demo_df)" "0 < length [(Val 1, Val 0, Val 0) :: seed]"
    "seeds_of demo_df ! 1 = [(Val 1, Val 0, Val 0)] ! 0"
    by (simp_all add: demo_seeds)
  from allow_overlap_never_consulted [where i = 1 and j = 0 and seeds = "seeds_of demo_df"
      and seeds' = "[(Val 1, Val 0, Val 0)]" and e = demo_env and niimg = "Some demo_img" and r = 1
      and ao = False and ao' = True and m = demo_mask and X = X and A = A and X' = X' and A' = A']
    h h' l
  have "X = X' \<and> A ! 1 = A' ! 0" by blast
  with h h' l show ?thesis by blast
qed

subsection \<open>The loops over radii and files\<close>

lemma radius_loop_eq:
  "radius_loop ex f img sid radii acc =
     acc @ filter (\<lambda>t. t \<noteq> [])
             (map (\<lambda>r. map (\<lambda>rec. \<lparr> measured = rec, subject_id = sid \<rparr>) (ex f img r)) radii)"
  by (induction radii arbitrary: acc) (simp_all add: Let_def)

lemma file_loop_eq:
  "file_loop ex img radii files acc =
     acc @ concat (map (\<lambda>f. case extract_subject_id (basename f) of
                              None \<Rightarrow> []
                            | Some sid \<Rightarrow>
                                filter (\<lambda>t. t \<noteq> [])
                                  (map (\<lambda>r. map (\<lambda>rec. \<lparr> measured = rec, subject_id = sid \<rparr>)
                                              (ex f img r)) radii)) files)"
  by (induction files arbitrary: acc) (simp_all add: radius_loop_eq split: option.splits)

lemma file_loop_append:
  "file_loop ex img radii (fs1 @ fs2) acc = file_loop ex img radii fs2 (file_loop ex img radii fs1 acc)"
  by (simp add: file_loop_eq)

lemma concat_filter_nonempty: "concat (filter (\<lambda>t. t \<noteq> []) xs) = concat xs"
  by (induction xs) simp_all

lemma file_loop_tables_nonempty: "t \<in> set (file_loop ex img radii files []) \<Longrightarrow> t \<noteq> []"
  by (auto simp: file_loop_eq split: option.splits)

lemma concat_file_loop:
  "concat (file_loop ex img radii files []) = concat (map (file_rows ex img radii) files)"
proof -
  have "concat (case extract_subject_id (basename f) of
                  None \<Rightarrow> []
                | Some sid \<Rightarrow>
                    filter (\<lambda>t. t \<noteq> [])
                      (map (\<lambda>r. map (\<lambda>rec. \<lparr> measured = rec, subject_id = sid \<rparr>) (ex f img r)) radii))
        = file_rows ex img radii f" for f
    by (simp add: file_rows_def concat_filter_nonempty split: option.splits)
  moreover have "concat (concat (map g files)) = concat (map (\<lambda>f. concat (g f)) files)"
    for g :: "string \<Rightarrow> out_row list list"
    by (induction files) simp_all
  ultimately show ?thesis
    by (simp add: file_loop_eq)
qed

lemma write_results_file_loop:
  "write_results (file_loop ex img radii files []) =
     (let rows = concat (map (file_rows ex img radii) files)
      in if rows = [] then None else Some rows)"
proof (cases "file_loop ex img radii files [] = []")
  case True
  then show ?thesis
    using concat_file_loop [of ex img radii files] by (simp add: write_results_def)
next
  case False
  then obtain t ts where c: "file_loop ex img radii files [] = t # ts"
    by (cases "file_loop ex img radii files []") auto
  then have "t \<noteq> []"
    using file_loop_tables_nonempty [of t ex img radii files] by simp
  then have "concat (file_loop ex img radii files []) \<noteq> []"
    by (simp add: c)
  then show ?thesis
    using False concat_file_loop [of ex img radii files] by (simp add: write_results_def Let_def)
qed



lemma extract_bad_file:
  assumes "(\<exists>err. read_csv e bad = Inl err)
           \<or> (\<exists>df. read_csv e bad = Inr df \<and> list_ex (\<lambda>c. c \<notin> set (df_columns df)) required_cols)"
  shows "extract_buffer_zone_data_with h self e bad image_file radius = []"
  using assms by (auto simp: extract_buffer_zone_data_with_def extract_body_def)

subsection \<open>The concrete batch\<close>


lemma demo_ids:
  "extract_subject_id (basename ''in/coordinates/bad_0003.csv'') = Some ''0003''"
  "extract_subject_id (basename ''in/coordinates/s_0001.csv'') = Some ''0001''"
  "extract_subject_id (basename ''in/coordinates/s_0002.csv'') = Some ''0002''"
  by (simp_all add: basename_def is_digit_def)

text \<open>Claim C4: a coordinate file that cannot be read, or lacks one of the columns X, Y
  and Z, yields the empty table at every radius, whatever the helper method does; the
  loop over the files, with such a file anywhere in the list, ends with the same tables
  as without it; and what is written is exactly the rows of the other files, in their
  order (nothing is written when they have none).\<close>

theorem unreadable_file_is_skipped:
  assumes "(\<exists>err. read_csv e bad = Inl err)
           \<or> (\<exists>df. read_csv e bad = Inr df \<and> list_ex (\<lambda>c. c \<notin> set (df_columns df)) required_cols)"
  shows "extract_buffer_zone_data_with h self e bad image_file radius = []
       \<and> file_loop (extract_buffer_zone_data_with h self e) image_file radii (fs1 @ bad # fs2) acc =
           file_loop (extract_buffer_zone_data_with h self e) image_file radii (fs1 @ fs2) acc
       \<and> write_results (file_loop (extract_buffer_zone_data_with h self e) image_file radii
                          (fs1 @ bad # fs2) []) =
           (let rows = concat (map (file_rows (extract_buffer_zone_data_with h self e) image_file radii)
                                 (fs1 @ fs2))
            in if rows = [] then None else Some rows)"
proof -
  let ?ex = "extract_buffer_zone_data_with h self e"
  have b: "?ex bad img r = []" for img r
    using assms by (rule extract_bad_file)
  have "file_loop ?ex image_file radii [bad] acc' = acc'" for acc'
    by (simp add: file_loop_eq b split: option.splits)
  then have l: "file_loop ?ex image_file radii (fs1 @ bad # fs2) acc = file_loop ?ex image_file radii (fs1 @ fs2) acc"
    for acc
    using file_loop_append [of ?ex image_file radii "fs1 @ [bad]" fs2 acc]
      file_loop_append [of ?ex image_file radii fs1 "[bad]" acc]
      file_loop_append [of ?ex image_file radii fs1 fs2 acc]
    by simp
  show ?thesis
    using b l [of "[]"] l [of acc] by (simp add: write_results_file_loop)
qed

lemma demo_file_rows:
  assumes "cf = ''in/coordinates/s_0001.csv'' \<and> sid = ''0001''
           \<or> cf = ''in/coordinates/s_0002.csv'' \<and> sid = ''0002''"
  shows "map (\<lambda>r. (subject_id r, radius_mm (measured r), seed_id (measured r), voxel_count (measured r)))
           (file_rows demo_ex ''in/images/t1.nii.gz'' [Some 1, Some 3] cf)
         = [(sid, 1, 0, 1), (sid, 1, 1, 2), (sid, 3, 0, 2), (sid, 3, 1, 2)]"
proof -
  have cf: "cf = ''in/coordinates/s_0001.csv'' \<or> cf = ''in/coordinates/s_0002.csv''"
    using assms by auto
  have id: "extract_subject_id (basename cf) = Some sid"
    using assms demo_ids by auto
  have m: "map (\<lambda>r. (subject_id r, radius_mm (measured r), seed_id (measured r), voxel_count (measured r)))
             (map (\<lambda>rec. \<lparr> measured = rec, subject_id = sid \<rparr>) rows)
           = map (\<lambda>(i, r, n). (sid, r, i, n))
               (map (\<lambda>rec. (seed_id rec, radius_mm rec, voxel_count rec)) rows)" for rows
    by simp
  show ?thesis
    unfolding file_rows_def id demo_ex_def
    by (simp add: m demo_rows [OF cf] del: map_map)
qed


theorem unreadable_file_is_skipped_witness:
  "read_csv demo_env ''in/coordinates/bad_0003.csv'' = Inl (OSError ''cannot read'')
   \<and> demo_ex ''in/coordinates/bad_0003.csv'' ''in/images/t1.nii.gz'' (Some 1) = []
   \<and> write_results (file_loop demo_ex ''in/images/t1.nii.gz'' [Some 1, Some 3]
         ([''in/coordinates/s_0001.csv''] @ ''in/coordinates/bad_0003.csv'' # [''in/coordinates/s_0002.csv'']) [])
      = write_results (file_loop demo_ex ''in/images/t1.nii.gz'' [Some 1, Some 3]
         ([''in/coordinates/s_0001.csv''] @ [''in/coordinates/s_0002.csv'']) [])
   \<and> (\<exists>rows.
         write_results (file_loop demo_ex ''in/images/t1.nii.gz'' [Some 1, Some 3]
           ([''in/coordinates/s_0001.csv''] @ ''in/coordinates/bad_0003.csv'' # [''in/coordinates/s_0002.csv'']) [])
         = Some rows
       \<and> map (\<lambda>r. (subject_id r, radius_mm (measured r), seed_id (measured r), voxel_count (measured r))) rows
         = [(''0001'', 1, 0, 1), (''0001'', 1, 1, 2), (''0001'', 3, 0, 2), (''0001'', 3, 1, 2),
            (''0002'', 1, 0, 1), (''0002'', 1, 1, 2), (''0002'', 3, 0, 2), (''0002'', 3, 1, 2)])"
proof -
  let ?key = "\<lambda>r. (subject_id r, radius_mm (measured r), seed_id (measured r), voxel_count (measured r))"
  let ?rows = "concat (map (file_rows demo_ex ''in/images/t1.nii.gz'' [Some 1, Some 3])
                 ([''in/coordinates/s_0001.csv''] @ [''in/coordinates/s_0002.csv'']))"
  have bad: "(\<exists>err. read_csv demo_env ''in/coordinates/bad_0003.csv'' = Inl err)
             \<or> (\<exists>df. read_csv demo_env ''in/coordinates/bad_0003.csv'' = Inr df
                   \<and> list_ex (\<lambda>c. c \<notin> set (df_columns df)) required_cols)"
    by (simp add: demo_read)
  note t = unreadable_file_is_skipped [OF bad, where h = "helper_with demo_env demo_mask"
      and self = demo_self and image_file = "''in/images/t1.nii.gz''" and radius = "Some 1"
      and radii = "[Some 1, Some 3]" and ?fs1.0 = "[''in/coordinates/s_0001.csv'']"
      and ?fs2.0 = "[''in/coordinates/s_0002.csv'']" and acc = "[]", folded demo_ex_def]
  have k: "map ?key ?rows =
        [(''0001'', 1, 0, 1), (''0001'', 1, 1, 2), (''0001'', 3, 0, 2), (''0001'', 3, 1, 2),
         (''0002'', 1, 0, 1), (''0002'', 1, 1, 2), (''0002'', 3, 0, 2), (''0002'', 3, 1, 2)]"
    using demo_file_rows [of "''in/coordinates/s_0001.csv''" "''0001''"]
      demo_file_rows [of "''in/coordinates/s_0002.csv''" "''0002''"]
    by simp
  then have ne: "?rows \<noteq> []" by auto
  note e = t [THEN conjunct1]
  note bq = t [THEN conjunct2, THEN conjunct1]
  note c = t [THEN conjunct2, THEN conjunct2]
  have w: "write_results (file_loop demo_ex ''in/images/t1.nii.gz'' [Some 1, Some 3]
      ([''in/coordinates/s_0001.csv''] @ ''in/coordinates/bad_0003.csv'' # [''in/coordinates/s_0002.csv'']) [])
      = Some ?rows"
    by (simp only: c Let_def ne if_False)
  have l: "write_results (file_loop demo_ex ''in/images/t1.nii.gz'' [Some 1, Some 3]
         ([''in/coordinates/s_0001.csv''] @ ''in/coordinates/bad_0003.csv'' # [''in/coordinates/s_0002.csv'']) [])
      = write_results (file_loop demo_ex ''in/images/t1.nii.gz'' [Some 1, Some 3]
         ([''in/coordinates/s_0001.csv''] @ [''in/coordinates/s_0002.csv'']) [])"
    using bq by (rule arg_cong)
  show ?thesis
    apply (intro conjI)
       apply (rule demo_read(3))
      apply (rule e)
     apply (rule l)
    apply (rule exI [of _ ?rows])
    apply (rule conjI [OF w k])
    done
qed

subsection \<open>The order of the rows\<close>









end
